theory Spec2Isabelle
  imports Complex_Main "HOL-Library.Multiset"
begin

section \<open>Values of the host language\<close>

text \<open>
  The program is TypeScript in which most collaborator values are typed \<open>any\<close>.
  The values that cross the repository's own code are modelled by a small datatype:
  \<open>JError m\<close> is an instance of \<open>Error\<close> with message \<open>m\<close>; every other
  constructor is a value for which \<open>instanceof Error\<close> is false. Numbers are
  idealised as rationals (no rounding, no NaN, no infinities). Strings are HOL strings:
  a character stands for a code unit below 256. The glyphs beyond that range occur only
  in messages written to the terminal, where they are spelled by the bytes of their
  UTF-8 encoding.
\<close>

datatype js_value =
    JUndefined
  | JNull
  | JBool bool
  | JNum rat
  | JStr string
  | JError string
  | JArray "js_value list"
  | JObject "(string \<times> js_value) list"

text \<open>A thrown value is any value; a computation that may throw returns a sum.\<close>

type_synonym thrown = js_value

fun instanceof_Error :: "js_value \<Rightarrow> bool" where
  "instanceof_Error (JError m) = True"
| "instanceof_Error v = False"

fun Error_message :: "js_value \<Rightarrow> string" where
  "Error_message (JError m) = m"
| "Error_message v = []"

text \<open>The expression \<open>error instanceof Error ? error.message : 'Unknown error'\<close>.\<close>

definition error_message :: "js_value \<Rightarrow> string" where
  "error_message e = (if instanceof_Error e then Error_message e else ''Unknown error'')"

definition utf8 :: "nat list \<Rightarrow> string" where
  "utf8 bs = map char_of bs"

definition repeat :: "string \<Rightarrow> nat \<Rightarrow> string" where
  "repeat s n = concat (replicate n s)"

definition heavy_bar :: string where
  "heavy_bar = utf8 [0xE2, 0x94, 0x81]"

definition robot :: string where
  "robot = utf8 [0xF0, 0x9F, 0xA4, 0x96]"

definition check_mark :: string where
  "check_mark = utf8 [0xE2, 0x9C, 0x85]"

definition cross_mark :: string where
  "cross_mark = utf8 [0xE2, 0x9D, 0x8C]"

definition package_glyph :: string where
  "package_glyph = utf8 [0xF0, 0x9F, 0x93, 0xA6]"

definition rocket :: string where
  "rocket = utf8 [0xF0, 0x9F, 0x9A, 0x80]"

definition target_glyph :: string where
  "target_glyph = utf8 [0xF0, 0x9F, 0x8E, 0xAF]"

definition speech_glyph :: string where
  "speech_glyph = utf8 [0xF0, 0x9F, 0x92, 0xAC]"

definition stopwatch :: string where
  "stopwatch = utf8 [0xE2, 0x8F, 0xB1, 0xEF, 0xB8, 0x8F]"

definition chart_glyph :: string where
  "chart_glyph = utf8 [0xF0, 0x9F, 0x93, 0x8A]"

definition wave_glyph :: string where
  "wave_glyph = utf8 [0xF0, 0x9F, 0x91, 0x8B]"

definition tools_glyph :: string where
  "tools_glyph = utf8 [0xF0, 0x9F, 0x9B, 0xA0, 0xEF, 0xB8, 0x8F]"

text \<open>Decimal rendering of an integer, as a template literal renders it.\<close>

definition digit_char :: "nat \<Rightarrow> char" where
  "digit_char d = char_of (48 + d)"

function show_nat :: "nat \<Rightarrow> string" where
  "show_nat n = (if n < 10 then [digit_char n] else show_nat (n div 10) @ [digit_char (n mod 10)])"
  by pat_completeness auto
termination
  by (relation "measure id") auto

declare show_nat.simps [simp del]

definition show_int :: "int \<Rightarrow> string" where
  "show_int i = (if i < 0 then CHR ''-'' # show_nat (nat (- i)) else show_nat (nat i))"

text \<open>\<open>Array.prototype.join\<close> on strings.\<close>

fun join :: "string \<Rightarrow> string list \<Rightarrow> string" where
  "join sep [] = []"
| "join sep [x] = x"
| "join sep (x # y # ys) = x @ sep @ join sep (y # ys)"

text \<open>Truthiness, as \<open>if (v)\<close>, \<open>!v\<close> and \<open>v || d\<close> test it.\<close>

fun truthy :: "js_value \<Rightarrow> bool" where
  "truthy JUndefined = False"
| "truthy JNull = False"
| "truthy (JBool b) = b"
| "truthy (JNum q) = (q \<noteq> 0)"
| "truthy (JStr s) = (s \<noteq> [])"
| "truthy v = True"

definition TypeError :: "string \<Rightarrow> js_value" where
  "TypeError m = JError m"

definition RangeError :: "string \<Rightarrow> js_value" where
  "RangeError m = JError m"

text \<open>
  Property access \<open>v.k\<close>. On \<open>undefined\<close> and \<open>null\<close> it throws a \<open>TypeError\<close> (the
  message is the engine's, here V8's); on an object it reads the key; the only
  properties of the other values that the program reads are \<open>length\<close> and \<open>message\<close>.
\<close>

definition cannot_read :: "string \<Rightarrow> string \<Rightarrow> thrown" where
  "cannot_read what k =
     TypeError (''Cannot read properties of '' @ what @ '' (reading '' @ [CHR 0x27] @ k @ [CHR 0x27] @ '')'')"

fun member :: "js_value \<Rightarrow> string \<Rightarrow> thrown + js_value" where
  "member JUndefined k = Inl (cannot_read ''undefined'' k)"
| "member JNull k = Inl (cannot_read ''null'' k)"
| "member (JObject kvs) k = Inr (case map_of kvs k of None \<Rightarrow> JUndefined | Some v \<Rightarrow> v)"
| "member (JArray xs) k = Inr (if k = ''length'' then JNum (of_nat (length xs)) else JUndefined)"
| "member (JStr s) k = Inr (if k = ''length'' then JNum (of_nat (length s)) else JUndefined)"
| "member (JError m) k = Inr (if k = ''message'' then JStr m else JUndefined)"
| "member v k = Inr JUndefined"

text \<open>Optional chaining \<open>v?.k\<close>.\<close>

definition optional_member :: "js_value \<Rightarrow> string \<Rightarrow> thrown + js_value" where
  "optional_member v k = (if v = JUndefined \<or> v = JNull then Inr JUndefined else member v k)"

text \<open>
  What the runtime, not the repository, decides: how a number, a date and an object are
  printed. These are parameters of the model. \<open>Date_format_iso\<close> prints a valid time
  value as \<open>toISOString\<close> does; the three locale printers depend on the host's locale.
\<close>

record host =
  Number_toString :: "rat \<Rightarrow> string"
  Object_toString :: "js_value \<Rightarrow> string"
  JSON_stringify :: "js_value \<Rightarrow> string"
  Date_format_iso :: "int \<Rightarrow> string"
  Date_toLocaleString :: "int \<Rightarrow> string"
  Date_toLocaleDateString :: "int \<Rightarrow> string"
  Date_toLocaleTimeString :: "int \<Rightarrow> string"
  LocalTZA :: int

text \<open>The conversion a template literal \<open>`${v}`\<close> applies.\<close>

fun template :: "host \<Rightarrow> js_value \<Rightarrow> string" where
  "template h JUndefined = ''undefined''"
| "template h JNull = ''null''"
| "template h (JBool b) = (if b then ''true'' else ''false'')"
| "template h (JNum q) = Number_toString h q"
| "template h (JStr s) = s"
| "template h v = Object_toString h v"

text \<open>
  \<open>Number.prototype.toFixed(2)\<close> on an idealised number: the sign is split off, and the
  magnitude is rounded to the nearest hundredth, the larger one on a tie.
\<close>

definition toFixed2 :: "rat \<Rightarrow> string" where
  "toFixed2 x =
     (let a = \<bar>x\<bar>;
          n = nat \<lfloor>a * 100 + 1 / 2\<rfloor>
      in (if x < 0 then ''-'' else []) @ show_nat (n div 100) @ ''.''
           @ [digit_char (n mod 100 div 10), digit_char (n mod 10)])"

text \<open>
  \<open>toUpperCase\<close> is applied to the six operation names only, so the letters \<open>a\<close> to
  \<open>z\<close> suffice. \<open>toLowerCase\<close> is applied to a typed line: below 256 the upper-case
  letters are \<open>A\<close> to \<open>Z\<close> and the accented ones from 192 to 222, the sign at 215 apart.
\<close>

definition toUpperCase :: "string \<Rightarrow> string" where
  "toUpperCase s =
     map (\<lambda>c. let n = (of_char c :: nat) in if 97 \<le> n \<and> n \<le> 122 then char_of (n - 32) else c) s"

definition toLowerCase :: "string \<Rightarrow> string" where
  "toLowerCase s =
     map (\<lambda>c. let n = (of_char c :: nat)
              in if (65 \<le> n \<and> n \<le> 90) \<or> (192 \<le> n \<and> n \<le> 222 \<and> n \<noteq> 215)
                 then char_of (n + 32) else c) s"

section \<open>Dates\<close>

text \<open>
  A \<open>Date\<close> holds a time value: milliseconds since the epoch, or NaN (here \<open>None\<close>) when
  invalid. \<open>getDate\<close> and \<open>setDate\<close> follow the abstract operations of the language
  standard (Day, TimeWithinDay, DayFromYear, YearFromTime, MonthFromTime, DateFromTime,
  MakeDay, MakeDate, TimeClip). The host's offset from UTC is taken as the constant
  \<open>LocalTZA\<close>: daylight-saving transitions are not modelled.
\<close>

type_synonym date = "int option"

definition msPerDay :: int where
  "msPerDay = 86400000"

definition Day :: "int \<Rightarrow> int" where
  "Day t = t div msPerDay"

definition TimeWithinDay :: "int \<Rightarrow> int" where
  "TimeWithinDay t = t mod msPerDay"

definition DaysInYear :: "int \<Rightarrow> int" where
  "DaysInYear y =
     (if y mod 4 \<noteq> 0 then 365 else if y mod 100 \<noteq> 0 then 366
      else if y mod 400 \<noteq> 0 then 365 else 366)"

definition DayFromYear :: "int \<Rightarrow> int" where
  "DayFromYear y =
     365 * (y - 1970) + (y - 1969) div 4 - (y - 1901) div 100 + (y - 1601) div 400"

text \<open>
  The year of a day number, that is the largest year whose first day is not after it:
  an estimate from the mean length of a year, moved by one year where needed.
\<close>

definition YearFromDay :: "int \<Rightarrow> int" where
  "YearFromDay d =
     (let y0 = 1970 + (d * 400) div 146097
      in if DayFromYear (y0 + 1) \<le> d then y0 + 1
         else if DayFromYear y0 \<le> d then y0 else y0 - 1)"

definition YearFromTime :: "int \<Rightarrow> int" where
  "YearFromTime t = YearFromDay (Day t)"

definition InLeapYear :: "int \<Rightarrow> int" where
  "InLeapYear t = (if DaysInYear (YearFromTime t) = 366 then 1 else 0)"

definition DayWithinYear :: "int \<Rightarrow> int" where
  "DayWithinYear t = Day t - DayFromYear (YearFromTime t)"

text \<open>Days of the year before month \<open>m\<close> (0 is January); \<open>leap\<close> is 0 or 1.\<close>

definition month_start :: "int \<Rightarrow> int \<Rightarrow> int" where
  "month_start m leap =
     (if m = 0 then 0 else if m = 1 then 31 else if m = 2 then 59 + leap
      else if m = 3 then 90 + leap else if m = 4 then 120 + leap
      else if m = 5 then 151 + leap else if m = 6 then 181 + leap
      else if m = 7 then 212 + leap else if m = 8 then 243 + leap
      else if m = 9 then 273 + leap else if m = 10 then 304 + leap else 334 + leap)"

definition MonthFromTime :: "int \<Rightarrow> int" where
  "MonthFromTime t =
     (let d = DayWithinYear t; leap = InLeapYear t
      in if d < 31 then 0 else if d < 59 + leap then 1 else if d < 90 + leap then 2
         else if d < 120 + leap then 3 else if d < 151 + leap then 4
         else if d < 181 + leap then 5 else if d < 212 + leap then 6
         else if d < 243 + leap then 7 else if d < 273 + leap then 8
         else if d < 304 + leap then 9 else if d < 334 + leap then 10 else 11)"

definition DateFromTime :: "int \<Rightarrow> int" where
  "DateFromTime t = DayWithinYear t - month_start (MonthFromTime t) (InLeapYear t) + 1"

definition MakeDay :: "int \<Rightarrow> int \<Rightarrow> int \<Rightarrow> int" where
  "MakeDay year month dt =
     (let ym = year + month div 12;
          mn = month mod 12
      in DayFromYear ym + month_start mn (if DaysInYear ym = 366 then 1 else 0) + dt - 1)"

definition MakeDate :: "int \<Rightarrow> int \<Rightarrow> int" where
  "MakeDate day time = day * msPerDay + time"

definition TimeClip :: "int \<Rightarrow> date" where
  "TimeClip t = (if \<bar>t\<bar> > 8640000000000000 then None else Some t)"

definition LocalTime :: "host \<Rightarrow> int \<Rightarrow> int" where
  "LocalTime h t = t + LocalTZA h"

definition UTC :: "host \<Rightarrow> int \<Rightarrow> int" where
  "UTC h t = t - LocalTZA h"

text \<open>\<open>ToIntegerOrInfinity\<close> on a finite number: truncation towards zero.\<close>

definition ToInteger :: "rat \<Rightarrow> int" where
  "ToInteger q = (if q < 0 then \<lceil>q\<rceil> else \<lfloor>q\<rfloor>)"

text \<open>\<open>getDate()\<close>: the day of the month in local time, NaN on an invalid date.\<close>

definition Date_getDate :: "host \<Rightarrow> date \<Rightarrow> rat option" where
  "Date_getDate h d =
     (case d of None \<Rightarrow> None | Some tv \<Rightarrow> Some (of_int (DateFromTime (LocalTime h tv))))"

text \<open>\<open>setDate(dt)\<close>: the date after the call; a NaN argument or receiver gives NaN.\<close>

definition Date_setDate :: "host \<Rightarrow> date \<Rightarrow> rat option \<Rightarrow> date" where
  "Date_setDate h d dt =
     (case (d, dt) of
        (Some tv, Some q) \<Rightarrow>
          (let t = LocalTime h tv;
               newDate = MakeDate (MakeDay (YearFromTime t) (MonthFromTime t) (ToInteger q))
                           (TimeWithinDay t)
           in TimeClip (UTC h newDate))
      | _ \<Rightarrow> None)"

text \<open>\<open>toISOString()\<close> throws a \<open>RangeError\<close> on an invalid date.\<close>

definition Date_toISOString :: "host \<Rightarrow> date \<Rightarrow> thrown + string" where
  "Date_toISOString h d =
     (case d of None \<Rightarrow> Inl (RangeError ''Invalid time value'')
      | Some tv \<Rightarrow> Inr (Date_format_iso h tv))"

section \<open>tools.ts: what a tool receives and what it touches\<close>

text \<open>
  The argument object of a tool call. A tool reads the fields of its own schema by
  destructuring; a field that is absent reads as \<open>undefined\<close> (\<open>None\<close>). The enumerated
  fields \<open>operation\<close> and \<open>action\<close> are strings, so a value outside the enumeration
  reaches the handler's default branch.
\<close>

record tool_args =
  query :: "string option"
  limit :: "rat option"
  operation :: "string option"
  values' :: "rat list option"
  action :: "string option"
  days :: "rat option"
  format :: "string option"
  conversationId :: "string option"
  message :: "string option"
  table :: "string option"
  filters :: "(string \<times> js_value) list option"

text \<open>
  The hosted store and the embedding service are collaborators. A request to the store
  is a remote procedure call, a filtered read of a table, or an upsert; its answer is
  the pair \<open>{ data, error }\<close>, unless the client itself throws.
\<close>

datatype store_request =
    Rpc string "(string \<times> js_value) list"
  | Select string string "(string \<times> js_value) list" "rat option" bool
  | Upsert string "(string \<times> js_value) list"

record store_response =
  data :: js_value
  store_error :: js_value

type_synonym store_client = "store_request \<Rightarrow> thrown + store_response"

type_synonym embedder = "js_value \<Rightarrow> thrown + js_value"

datatype effect = EmbedQuery js_value | StoreRequest store_request

text \<open>
  A handler resolves with a value or rejects with a thrown one, and the model records
  which requests it sent to the collaborators, in order.
\<close>

type_synonym tool_result = "(thrown + js_value) \<times> effect list"

fun opt_str :: "string option \<Rightarrow> js_value" where
  "opt_str None = JUndefined"
| "opt_str (Some s) = JStr s"

text \<open>All elements in order, or the first thrown value.\<close>

fun sequence :: "(thrown + 'a) list \<Rightarrow> thrown + 'a list" where
  "sequence [] = Inr []"
| "sequence (Inl e # xs) = Inl e"
| "sequence (Inr x # xs) = (case sequence xs of Inl e \<Rightarrow> Inl e | Inr ys \<Rightarrow> Inr (x # ys))"

text \<open>\<open>data.length === 0\<close> on a truthy value.\<close>

fun length_is_zero :: "js_value \<Rightarrow> bool" where
  "length_is_zero (JArray xs) = (xs = [])"
| "length_is_zero (JStr s) = (s = [])"
| "length_is_zero v = False"

text \<open>The numeric reductions of the \<open>switch\<close> over \<open>operation\<close>, shared by both modules.\<close>

definition reduce_add :: "rat list \<Rightarrow> rat" where
  "reduce_add vs = foldl (\<lambda>a b. a + b) 0 vs"

definition Math_min :: "rat list \<Rightarrow> rat" where
  "Math_min vs = foldl min (hd vs) (tl vs)"

definition Math_max :: "rat list \<Rightarrow> rat" where
  "Math_max vs = foldl max (hd vs) (tl vs)"

text \<open>
  The \<open>median\<close> case: \<open>[...values].sort((a, b) => a - b)\<close>, \<open>Math.floor(length / 2)\<close>, and
  the conditional on the parity of the length.
\<close>

definition median_case :: "rat list \<Rightarrow> rat" where
  "median_case vs =
     (let sorted' = sort vs;
          mid = length sorted' div 2
      in if length sorted' mod 2 \<noteq> 0 then sorted' ! mid
         else (sorted' ! (mid - 1) + sorted' ! mid) / 2)"

text \<open>
  The whole \<open>switch\<close>: \<open>None\<close> is the \<open>default\<close> branch. It is entered only with a
  non-empty array, so every index above is in range.
\<close>

definition switch_operation :: "string option \<Rightarrow> rat list \<Rightarrow> rat option" where
  "switch_operation op vs =
     (if op = Some ''mean'' then Some (reduce_add vs / of_nat (length vs))
      else if op = Some ''median'' then Some (median_case vs)
      else if op = Some ''sum'' then Some (reduce_add vs)
      else if op = Some ''count'' then Some (of_nat (length vs))
      else if op = Some ''min'' then Some (Math_min vs)
      else if op = Some ''max'' then Some (Math_max vs)
      else None)"

text \<open>
  The date computed by the \<open>add_days\<close> branch:
  \<open>const future = new Date(now); future.setDate(future.getDate() + days)\<close>.
\<close>

definition add_days_date :: "host \<Rightarrow> int \<Rightarrow> rat \<Rightarrow> date" where
  "add_days_date h now d =
     (let future = Some now
      in Date_setDate h future (map_option (\<lambda>g. g + d) (Date_getDate h future)))"

subsection \<open>The module of object literals (the one \<open>agent.ts\<close> imports)\<close>

text \<open>
  \<open>supabase\<close> and \<open>embeddings\<close> are \<open>null\<close> when the configuration lacks their
  credentials. \<open>now\<close> is the reading of \<open>new Date()\<close> inside the handler.
\<close>

record tool_env =
  supabase :: "store_client option"
  embeddings :: "embedder option"
  rt :: host
  now :: int

text \<open>
  A tool: its name, its description and its handler (\<open>call\<close> of an object literal,
  \<open>_call\<close> of a class). The schema is the typing of \<open>tool_args\<close>.
\<close>

record ('env, 'input) tool_like =
  name :: string
  description :: string
  call :: "'env \<Rightarrow> 'input \<Rightarrow> tool_result"

type_synonym tool = "(tool_env, tool_args option) tool_like"

text \<open>The \<open>map\<close> of \<open>DocumentSearchTool.call\<close>: one line per row, numbered from 1.\<close>

definition result_line :: "host \<Rightarrow> nat \<times> js_value \<Rightarrow> thrown + string" where
  "result_line h p =
     (case member (snd p) ''content'' of
        Inl e \<Rightarrow> Inl e
      | Inr content \<Rightarrow> Inr (''Result '' @ show_nat (fst p + 1) @ '': '' @ template h content))"

definition DocumentSearchTool_call :: "tool_env \<Rightarrow> tool_args option \<Rightarrow> tool_result" where
  "DocumentSearchTool_call env input =
     (case (supabase env, embeddings env) of
        (Some client, Some emb) \<Rightarrow>
          (let query' = opt_str (Option.bind input query);
               limit' = (case Option.bind input limit of None \<Rightarrow> 5 | Some l \<Rightarrow> l)
           in case emb query' of
                Inl e \<Rightarrow> (Inl e, [EmbedQuery query'])
              | Inr queryEmbedding \<Rightarrow>
                  (let request = Rpc ''match_documents''
                         [(''query_embedding'', queryEmbedding),
                          (''match_threshold'', JNum (78 / 100)),
                          (''match_count'', JNum limit')];
                       sent = [EmbedQuery query', StoreRequest request]
                   in case client request of
                        Inl e \<Rightarrow> (Inl e, sent)
                      | Inr response \<Rightarrow>
                          if truthy (store_error response) then (Inl (store_error response), sent)
                          else if \<not> truthy (data response) \<or> length_is_zero (data response)
                          then (Inr (JStr ''No relevant documents found.''), sent)
                          else (case data response of
                                  JArray rows \<Rightarrow>
                                    (case sequence (map (result_line (rt env)) (enumerate 0 rows)) of
                                       Inl e \<Rightarrow> (Inl e, sent)
                                     | Inr lines \<Rightarrow> (Inr (JStr (join ''\<newline>'' lines)), sent))
                                | _ \<Rightarrow> (Inl (TypeError ''data.map is not a function''), sent))))
      | _ \<Rightarrow> (Inr (JStr ''Document search not configured.''), []))"

definition DataAnalysisTool_call :: "tool_env \<Rightarrow> tool_args option \<Rightarrow> tool_result" where
  "DataAnalysisTool_call env input =
     (let operation' = Option.bind input operation;
          vs = Option.bind input values'
      in case vs of
           None \<Rightarrow> (Inr (JStr ''No values provided.''), [])
         | Some xs \<Rightarrow>
             if length xs = 0 then (Inr (JStr ''No values provided.''), [])
             else (case switch_operation operation' xs of
                     None \<Rightarrow> (Inr (JStr ''Invalid operation.''), [])
                   | Some result \<Rightarrow>
                       (Inr (JStr (template (rt env) (opt_str operation') @ '': ''
                                   @ Number_toString (rt env) result)), [])))"

definition DateTimeTool_call :: "tool_env \<Rightarrow> tool_args option \<Rightarrow> tool_result" where
  "DateTimeTool_call env input =
     (let action' = Option.bind input action;
          days' = Option.bind input days
      in if action' = Some ''current''
         then (case Date_toISOString (rt env) (Some (now env)) of
                 Inl e \<Rightarrow> (Inl e, [])
               | Inr stamp \<Rightarrow> (Inr (JStr (''Current date and time: '' @ stamp)), []))
         else if action' = Some ''add_days'' \<and> days' \<noteq> None
         then (case Date_toISOString (rt env) (add_days_date (rt env) (now env) (the days')) of
                 Inl e \<Rightarrow> (Inl e, [])
               | Inr stamp \<Rightarrow>
                   (Inr (JStr (''Date after '' @ Number_toString (rt env) (the days')
                               @ '' days: '' @ stamp)), []))
         else (Inr (JStr (''Formatted date: '' @ Date_toLocaleString (rt env) (now env))), []))"

definition ConversationMemoryTool_call :: "tool_env \<Rightarrow> tool_args option \<Rightarrow> tool_result" where
  "ConversationMemoryTool_call env input =
     (let action' = Option.bind input action
      in if action' = Some ''save'' then (Inr (JStr ''Conversation saved (stub).''), [])
         else (Inr (JStr ''No conversation history (stub).''), []))"

definition DocumentSearchTool :: tool where
  "DocumentSearchTool =
     \<lparr>name = ''document_search'',
      description = ''Search company documents using semantic search (Supabase)'',
      call = DocumentSearchTool_call\<rparr>"

definition DataAnalysisTool :: tool where
  "DataAnalysisTool =
     \<lparr>name = ''data_analysis'',
      description = ''Perform basic stats: mean, median, sum, min, max, count'',
      call = DataAnalysisTool_call\<rparr>"

definition DateTimeTool :: tool where
  "DateTimeTool =
     \<lparr>name = ''datetime'',
      description = ''Get the current date/time or add days'',
      call = DateTimeTool_call\<rparr>"

definition ConversationMemoryTool :: tool where
  "ConversationMemoryTool =
     \<lparr>name = ''conversation_memory'',
      description = ''Save or retrieve conversation messages (stub)'',
      call = ConversationMemoryTool_call\<rparr>"

definition allTools :: "tool list" where
  "allTools = [DocumentSearchTool, DataAnalysisTool, DateTimeTool, ConversationMemoryTool]"

subsection \<open>The module of classes\<close>

text \<open>
  Here \<open>supabase\<close> and \<open>embeddings\<close> are built unconditionally when the module loads.
  Every \<open>_call\<close> is one \<open>try\<close> block whose \<open>catch\<close> turns the thrown value into a
  string with a prefix of its own.
\<close>

record class_env =
  supabase' :: store_client
  embeddings' :: embedder
  rt' :: host
  now' :: int

type_synonym class_tool = "(class_env, tool_args) tool_like"

definition catch_to_string :: "string \<Rightarrow> tool_result \<Rightarrow> tool_result" where
  "catch_to_string prefix r =
     (case fst r of
        Inl e \<Rightarrow> (Inr (JStr (prefix @ error_message e)), snd r)
      | Inr v \<Rightarrow> (Inr v, snd r))"

text \<open>\<open>v.toFixed(2)\<close> on a value of unknown type.\<close>

fun call_toFixed2 :: "string \<Rightarrow> js_value \<Rightarrow> thrown + string" where
  "call_toFixed2 path (JNum q) = Inr (toFixed2 q)"
| "call_toFixed2 path JUndefined = Inl (cannot_read ''undefined'' ''toFixed'')"
| "call_toFixed2 path JNull = Inl (cannot_read ''null'' ''toFixed'')"
| "call_toFixed2 path v = Inl (TypeError (path @ ''.toFixed is not a function''))"

definition result_block :: "host \<Rightarrow> nat \<times> js_value \<Rightarrow> thrown + string" where
  "result_block h p =
     (case member (snd p) ''content'' of
        Inl e \<Rightarrow> Inl e
      | Inr content \<Rightarrow>
          (case member (snd p) ''similarity'' of
             Inl e \<Rightarrow> Inl e
           | Inr similarity \<Rightarrow>
               (case call_toFixed2 ''doc.similarity'' similarity of
                  Inl e \<Rightarrow> Inl e
                | Inr fixed \<Rightarrow>
                    Inr (''Result '' @ show_nat (fst p + 1) @ '':\<newline>Content: ''
                         @ template h content @ ''\<newline>Similarity: '' @ fixed @ ''\<newline>''))))"

definition DocumentSearchTool_try :: "class_env \<Rightarrow> tool_args \<Rightarrow> tool_result" where
  "DocumentSearchTool_try env input =
     (let query' = opt_str (query input);
          limit' = (case limit input of None \<Rightarrow> 5 | Some l \<Rightarrow> l)
      in case embeddings' env query' of
           Inl e \<Rightarrow> (Inl e, [EmbedQuery query'])
         | Inr queryEmbedding \<Rightarrow>
             (let request = Rpc ''match_documents''
                    [(''query_embedding'', queryEmbedding),
                     (''match_threshold'', JNum (78 / 100)),
                     (''match_count'', JNum limit')];
                  sent = [EmbedQuery query', StoreRequest request]
              in case supabase' env request of
                   Inl e \<Rightarrow> (Inl e, sent)
                 | Inr response \<Rightarrow>
                     if truthy (store_error response) then (Inl (store_error response), sent)
                     else if \<not> truthy (data response) \<or> length_is_zero (data response)
                     then (Inr (JStr ''No relevant documents found for your query.''), sent)
                     else (case data response of
                             JArray rows \<Rightarrow>
                               (case sequence (map (result_block (rt' env)) (enumerate 0 rows)) of
                                  Inl e \<Rightarrow> (Inl e, sent)
                                | Inr blocks \<Rightarrow> (Inr (JStr (join ''\<newline>'' blocks)), sent))
                           | _ \<Rightarrow> (Inl (TypeError ''data.map is not a function''), sent))))"

definition DocumentSearchTool_class_call :: "class_env \<Rightarrow> tool_args \<Rightarrow> tool_result" where
  "DocumentSearchTool_class_call env input =
     catch_to_string ''Error searching documents: '' (DocumentSearchTool_try env input)"

definition allowedTables :: "string list" where
  "allowedTables = [''documents'', ''agent_conversations'', ''document_chunks'']"

text \<open>The string returned for a table outside the allow-list.\<close>

definition table_not_allowed :: "host \<Rightarrow> js_value \<Rightarrow> string" where
  "table_not_allowed h t =
     ''Error: Table '' @ [CHR 0x27] @ template h t @ [CHR 0x27]
       @ '' is not allowed. Allowed tables: '' @ join '', '' allowedTables"

definition DatabaseQueryTool_try :: "class_env \<Rightarrow> tool_args \<Rightarrow> tool_result" where
  "DatabaseQueryTool_try env input =
     (let table' = opt_str (table input);
          filters' = (case filters input of None \<Rightarrow> [] | Some f \<Rightarrow> f);
          limit' = (case limit input of None \<Rightarrow> 10 | Some l \<Rightarrow> l)
      in if table' \<notin> set (map JStr allowedTables)
         then (Inr (JStr (table_not_allowed (rt' env) table')), [])
         else
           (let request = Select (template (rt' env) table') ''*'' filters' (Some limit') False
            in case supabase' env request of
                 Inl e \<Rightarrow> (Inl e, [StoreRequest request])
               | Inr response \<Rightarrow>
                   if truthy (store_error response)
                   then (Inl (store_error response), [StoreRequest request])
                   else if \<not> truthy (data response) \<or> length_is_zero (data response)
                   then (Inr (JStr ''No data found matching your criteria.''), [StoreRequest request])
                   else (Inr (JStr (JSON_stringify (rt' env) (data response))),
                         [StoreRequest request])))"

definition DatabaseQueryTool_class_call :: "class_env \<Rightarrow> tool_args \<Rightarrow> tool_result" where
  "DatabaseQueryTool_class_call env input =
     catch_to_string ''Error querying database: '' (DatabaseQueryTool_try env input)"

definition DataAnalysisTool_try :: "class_env \<Rightarrow> tool_args \<Rightarrow> tool_result" where
  "DataAnalysisTool_try env input =
     (case values' input of
        None \<Rightarrow> (Inl (cannot_read ''undefined'' ''length''), [])
      | Some xs \<Rightarrow>
          if length xs = 0 then (Inr (JStr ''Error: No values provided for analysis.''), [])
          else (case switch_operation (operation input) xs of
                  None \<Rightarrow> (Inr (JStr ''Error: Invalid operation.''), [])
                | Some result \<Rightarrow>
                    (Inr (JStr (toUpperCase (the (operation input)) @ '': '' @ toFixed2 result)),
                     [])))"

definition DataAnalysisTool_class_call :: "class_env \<Rightarrow> tool_args \<Rightarrow> tool_result" where
  "DataAnalysisTool_class_call env input =
     catch_to_string ''Error performing analysis: '' (DataAnalysisTool_try env input)"

definition ConversationMemoryTool_try :: "class_env \<Rightarrow> tool_args \<Rightarrow> tool_result" where
  "ConversationMemoryTool_try env input =
     (if action input = Some ''save'' then
        (if \<not> truthy (opt_str (message input))
         then (Inr (JStr ''Error: Message is required for save action.''), [])
         else (case Date_toISOString (rt' env) (Some (now' env)) of
                 Inl e \<Rightarrow> (Inl e, [])
               | Inr stamp \<Rightarrow>
                   (let request = Upsert ''agent_conversations''
                          [(''id'', opt_str (conversationId input)),
                           (''messages'', opt_str (message input)),
                           (''updated_at'', JStr stamp)]
                    in case supabase' env request of
                         Inl e \<Rightarrow> (Inl e, [StoreRequest request])
                       | Inr response \<Rightarrow>
                           if truthy (store_error response)
                           then (Inl (store_error response), [StoreRequest request])
                           else (Inr (JStr ''Conversation saved successfully.''),
                                 [StoreRequest request]))))
      else if action input = Some ''retrieve'' then
        (let request = Select ''agent_conversations'' ''messages''
               [(''id'', opt_str (conversationId input))] None True
         in case supabase' env request of
              Inl e \<Rightarrow> (Inl e, [StoreRequest request])
            | Inr response \<Rightarrow>
                if truthy (store_error response)
                then (Inl (store_error response), [StoreRequest request])
                else (case optional_member (data response) ''messages'' of
                        Inl e \<Rightarrow> (Inl e, [StoreRequest request])
                      | Inr messages \<Rightarrow>
                          (Inr (if truthy messages then messages
                                else JStr ''No conversation history found.''),
                           [StoreRequest request])))
      else (Inr (JStr ''Error: Invalid action.''), []))"

definition ConversationMemoryTool_class_call :: "class_env \<Rightarrow> tool_args \<Rightarrow> tool_result" where
  "ConversationMemoryTool_class_call env input =
     catch_to_string ''Error with conversation memory: '' (ConversationMemoryTool_try env input)"

definition DateTimeTool_try :: "class_env \<Rightarrow> tool_args \<Rightarrow> tool_result" where
  "DateTimeTool_try env input =
     (if action input = Some ''current''
      then (case Date_toISOString (rt' env) (Some (now' env)) of
              Inl e \<Rightarrow> (Inl e, [])
            | Inr stamp \<Rightarrow> (Inr (JStr (''Current date and time: '' @ stamp)), []))
      else if action input = Some ''add_days'' \<and> days input \<noteq> None
      then (case Date_toISOString (rt' env)
                   (add_days_date (rt' env) (now' env) (the (days input))) of
              Inl e \<Rightarrow> (Inl e, [])
            | Inr stamp \<Rightarrow>
                (Inr (JStr (''Date after '' @ Number_toString (rt' env) (the (days input))
                            @ '' days: '' @ stamp)), []))
      else if action input = Some ''format'' \<and> truthy (opt_str (format input))
      then (Inr (JStr (''Formatted date: '' @ Date_toLocaleDateString (rt' env) (now' env)
                       @ '' '' @ Date_toLocaleTimeString (rt' env) (now' env))), [])
      else (Inr (JStr ''Error: Invalid action or missing parameters.''), []))"

definition DateTimeTool_class_call :: "class_env \<Rightarrow> tool_args \<Rightarrow> tool_result" where
  "DateTimeTool_class_call env input =
     catch_to_string ''Error with datetime: '' (DateTimeTool_try env input)"

definition DocumentSearchTool_class :: class_tool where
  "DocumentSearchTool_class =
     \<lparr>name = ''document_search'',
      description = ''Search through company documents and knowledge base using semantic search. Use this when you need to find specific information from documents.'',
      call = DocumentSearchTool_class_call\<rparr>"

definition DatabaseQueryTool_class :: class_tool where
  "DatabaseQueryTool_class =
     \<lparr>name = ''database_query'',
      description = ''Query the database for structured data like user records, transactions, or metrics. Only read operations are allowed.'',
      call = DatabaseQueryTool_class_call\<rparr>"

definition DataAnalysisTool_class :: class_tool where
  "DataAnalysisTool_class =
     \<lparr>name = ''data_analysis'',
      description = ''Perform statistical analysis on data: calculate mean, median, sum, trends, etc.'',
      call = DataAnalysisTool_class_call\<rparr>"

definition ConversationMemoryTool_class :: class_tool where
  "ConversationMemoryTool_class =
     \<lparr>name = ''conversation_memory'',
      description = ''Save and retrieve conversation history for maintaining context across sessions.'',
      call = ConversationMemoryTool_class_call\<rparr>"

definition DateTimeTool_class :: class_tool where
  "DateTimeTool_class =
     \<lparr>name = ''datetime'',
      description = ''Get current date and time, or perform date calculations.'',
      call = DateTimeTool_class_call\<rparr>"

definition allTools_class :: "class_tool list" where
  "allTools_class =
     [DocumentSearchTool_class, DatabaseQueryTool_class, DataAnalysisTool_class,
      ConversationMemoryTool_class, DateTimeTool_class]"

section \<open>The process as seen by the program\<close>

text \<open>
  Effects are explicit. The world holds the wall clock read by \<open>Date.now()\<close>, the calls
  made on \<open>console\<close> in order (and the prompts \<open>readline\<close> writes), the exit status
  once \<open>process.exit\<close> has been called, and the state of the executor (its message
  history), whose type the repository does not fix. The lines typed on standard input
  are an argument of the interactive loop.
\<close>

datatype console_call =
    ConsoleLog "js_value list"
  | ConsoleError "js_value list"
  | Question string

record 'e world =
  clock :: int
  console :: "console_call list"
  exited :: "nat option"
  estate :: 'e

definition console_log :: "js_value list \<Rightarrow> 'e world \<Rightarrow> 'e world" where
  "console_log args w = w\<lparr>console := console w @ [ConsoleLog args]\<rparr>"

definition console_error :: "js_value list \<Rightarrow> 'e world \<Rightarrow> 'e world" where
  "console_error args w = w\<lparr>console := console w @ [ConsoleError args]\<rparr>"

definition Date_now :: "'e world \<Rightarrow> int" where
  "Date_now w = clock w"

definition rl_question :: "string \<Rightarrow> 'e world \<Rightarrow> 'e world" where
  "rl_question p w = w\<lparr>console := console w @ [Question p]\<rparr>"

text \<open>\<open>process.exit(code)\<close>: the status is recorded and the caller returns at once.\<close>

definition process_exit :: "nat \<Rightarrow> 'e world \<Rightarrow> 'e world" where
  "process_exit code w = w\<lparr>exited := Some code\<rparr>"

section \<open>agent.ts: the execution wrapper and the batch runner\<close>

text \<open>
  \<open>ChainValues\<close> is \<open>Record<string, any>\<close>. The executor is a collaborator: its
  \<open>invoke\<close> takes the argument object and either resolves with an object or rejects
  with a thrown value, and may change the world while it runs (time passes, it logs,
  its history grows).
\<close>

type_synonym chain_values = "string \<rightharpoonup> js_value"

type_synonym 'e executor = "chain_values \<Rightarrow> 'e world \<Rightarrow> (thrown + chain_values) \<times> 'e world"

record agent_result =
  success :: bool
  output' :: js_value
  error :: "string option"
  duration :: "int option"
  metadata :: "chain_values option"

text \<open>Reading a property of an object: an absent key reads as \<open>undefined\<close>.\<close>

definition get_prop :: "chain_values \<Rightarrow> string \<Rightarrow> js_value" where
  "get_prop obj k = (case obj k of None \<Rightarrow> JUndefined | Some v \<Rightarrow> v)"

text \<open>The object literal \<open>{ input, ...metadata }\<close>: keys of \<open>metadata\<close> win.\<close>

definition invoke_args :: "string \<Rightarrow> chain_values option \<Rightarrow> chain_values" where
  "invoke_args input md = [''input'' \<mapsto> JStr input] ++ (case md of None \<Rightarrow> Map.empty | Some m \<Rightarrow> m)"

definition fallback_output :: string where
  "fallback_output =
     ''I encountered an error processing your request. Please try again or rephrase your question.''"

text \<open>The two \<open>console.log\<close> calls that open the \<open>try\<close> block of \<open>runAgent\<close>.\<close>

definition processing_banner :: "string \<Rightarrow> 'e world \<Rightarrow> 'e world" where
  "processing_banner input w =
     console_log [JStr (repeat heavy_bar 60)]
       (console_log [JStr (''\<newline>'' @ robot @ '' Processing: '' @ input)] w)"

text \<open>
  \<open>runAgent\<close>: the \<open>try\<close> block runs to its \<open>return\<close> when \<open>invoke\<close> resolves; when it
  rejects, control passes to the \<open>catch\<close> block with the world as it was at the throw.
  The function is \<open>async\<close>, so its own outcome is again a sum: \<open>Inl\<close> would be a
  rejected promise.
\<close>

definition runAgent ::
  "'e executor \<Rightarrow> string \<Rightarrow> chain_values option \<Rightarrow> 'e world \<Rightarrow> (thrown + agent_result) \<times> 'e world" where
  "runAgent executor input md w =
     (let w1 = processing_banner input w;
          startTime = Date_now w1;
          (res, w2) = executor (invoke_args input md) w1
      in case res of
           Inr result \<Rightarrow>
             (let duration' = Date_now w2 - startTime;
                  w3 = console_log [JStr (''\<newline>'' @ check_mark @ '' Response generated in''),
                                    JNum (of_int duration'), JStr ''ms''] w2;
                  w4 = console_log [JStr (repeat heavy_bar 60)] w3
              in (Inr \<lparr>success = True, output' = get_prop result ''output'', error = None,
                       duration = Some duration', metadata = Some result\<rparr>, w4))
         | Inl error' \<Rightarrow>
             (let w3 = console_error [JStr (''\<newline>'' @ cross_mark @ '' Agent Error:''), error'] w2
              in (Inr \<lparr>success = False, output' = JStr fallback_output,
                       error = Some (error_message error'),
                       duration = None, metadata = None\<rparr>, w3)))"

text \<open>
  \<open>batchProcess\<close>: the \<open>for ... of queries.entries()\<close> loop, with the index, the
  results pushed so far and the world threaded through. An \<open>await\<close> of a rejected
  \<open>runAgent\<close> would leave the loop with that rejection.
\<close>

definition progress_line :: "nat \<Rightarrow> nat \<Rightarrow> js_value" where
  "progress_line index n =
     JStr (''\<newline>['' @ show_nat (index + 1) @ ''/'' @ show_nat n @ ''] Processing...'')"

fun batch_loop ::
  "'e executor \<Rightarrow> nat \<Rightarrow> string list \<Rightarrow> nat \<Rightarrow> agent_result list \<Rightarrow> 'e world
     \<Rightarrow> (thrown + agent_result list) \<times> 'e world" where
  "batch_loop executor n [] index results w = (Inr results, w)"
| "batch_loop executor n (query' # rest) index results w =
     (let w1 = console_log [progress_line index n] w
      in case runAgent executor query' None w1 of
           (Inl e, w2) \<Rightarrow> (Inl e, w2)
         | (Inr result, w2) \<Rightarrow> batch_loop executor n rest (index + 1) (results @ [result]) w2)"

definition batch_banner :: "nat \<Rightarrow> js_value" where
  "batch_banner n =
     JStr (''\<newline>'' @ package_glyph @ '' Batch processing '' @ show_nat n @ '' queries...'')"

definition batchProcess ::
  "'e executor \<Rightarrow> string list \<Rightarrow> 'e world \<Rightarrow> (thrown + agent_result list) \<times> 'e world" where
  "batchProcess executor queries w =
     (let w1 = console_log [batch_banner (length queries)] w
      in case batch_loop executor (length queries) queries 0 [] w1 of
           (Inl e, w2) \<Rightarrow> (Inl e, w2)
         | (Inr results, w2) \<Rightarrow>
             (Inr results,
              console_log [JStr (''\<newline>'' @ check_mark @ '' Batch processing complete!\<newline>'')] w2))"

text \<open>
  The world in which the loop of \<open>batchProcess\<close> calls \<open>runAgent\<close> for the query at
  position \<open>i\<close>: the loop has run over the \<open>i\<close> queries before it and has printed the
  progress line of this one.
\<close>

definition progress_world :: "'e executor \<Rightarrow> string list \<Rightarrow> nat \<Rightarrow> 'e world \<Rightarrow> 'e world" where
  "progress_world executor queries i w =
     console_log [progress_line i (length queries)]
       (snd (batch_loop executor (length queries) (take i queries) 0 []
               (console_log [batch_banner (length queries)] w)))"

text \<open>
  \<open>createProductionAgent\<close>. The model client, the memory buffer, the agent and the
  executor are built by the library from the values collected here; \<open>build\<close> stands for
  that construction, which may throw and may touch the world.
\<close>

record AgentConfig =
  temperature :: "rat option"
  maxTokens :: "rat option"
  modelName :: "string option"
  verbose :: "bool option"
  maxIterations :: "rat option"

record executor_setup =
  llm_modelName :: string
  llm_temperature :: rat
  llm_maxTokens :: rat
  llm_openAIApiKey :: string
  prompt :: string
  tools :: "tool list"
  memoryKey :: string
  inputKey :: string
  outputKey :: string
  setup_maxIterations :: rat
  handleParsingErrors :: bool
  setup_verbose :: bool

type_synonym 'e library = "executor_setup \<Rightarrow> 'e world \<Rightarrow> (thrown + 'e executor) \<times> 'e world"

type_synonym environment = "string \<rightharpoonup> string"

text \<open>\<open>!process.env[k]\<close>: the variable is unset or empty.\<close>

definition env_missing :: "environment \<Rightarrow> string \<Rightarrow> bool" where
  "env_missing env k = (\<not> truthy (opt_str (env k)))"

definition createProductionAgent ::
  "host \<Rightarrow> environment \<Rightarrow> 'e library \<Rightarrow> AgentConfig \<Rightarrow> 'e world
     \<Rightarrow> (thrown + 'e executor) \<times> 'e world" where
  "createProductionAgent h env build config w =
     (let temperature' = (case temperature config of None \<Rightarrow> 7 / 10 | Some t \<Rightarrow> t);
          maxTokens' = (case maxTokens config of None \<Rightarrow> 2000 | Some t \<Rightarrow> t);
          modelName' = (case modelName config of None \<Rightarrow> ''gpt-4'' | Some m \<Rightarrow> m);
          verbose' = (case verbose config of None \<Rightarrow> True | Some b \<Rightarrow> b);
          maxIterations' = (case maxIterations config of None \<Rightarrow> 5 | Some i \<Rightarrow> i)
      in if env_missing env ''OPENAI_API_KEY''
         then (Inl (JError ''OPENAI_API_KEY environment variable is required''), w)
         else (case Date_toISOString h (Some (Date_now w)) of
                 Inl e \<Rightarrow> (Inl e, w)
               | Inr stamp \<Rightarrow>
                   build \<lparr>llm_modelName = modelName', llm_temperature = temperature',
                          llm_maxTokens = maxTokens',
                          llm_openAIApiKey = the (env ''OPENAI_API_KEY''),
                          prompt = ''You are a professional AI assistant powered by advanced language models and equipped with specialized tools.\<newline>Current datetime: '' @ stamp,
                          tools = allTools,
                          memoryKey = ''chat_history'', inputKey = ''input'', outputKey = ''output'',
                          setup_maxIterations = maxIterations',
                          handleParsingErrors = True, setup_verbose = verbose'\<rparr> w))"

section \<open>index.ts: the command-line harness\<close>

text \<open>How a template literal prints \<open>result.duration\<close>.\<close>

fun duration_text :: "int option \<Rightarrow> string" where
  "duration_text None = ''undefined''"
| "duration_text (Some d) = show_int d"

definition demoQueries :: "string list" where
  "demoQueries =
     [''What is the current date and time?'',
      ''Calculate the mean of these numbers: 10, 20, 30, 40, 50'',
      ''Search for documents about '' @ [CHR 0x22] @ ''AI and machine learning'' @ [CHR 0x22]]"

text \<open>
  The loop of \<open>runDemoMode\<close>. The pause is the host's timer: \<open>sleep ms\<close> is the world after
  \<open>setTimeout\<close> has fired.
\<close>

fun demo_loop ::
  "'e executor \<Rightarrow> (int \<Rightarrow> 'e world \<Rightarrow> 'e world) \<Rightarrow> string list \<Rightarrow> 'e world
     \<Rightarrow> (thrown + unit) \<times> 'e world" where
  "demo_loop agent sleep [] w = (Inr (), w)"
| "demo_loop agent sleep (query' # rest) w =
     (case runAgent agent query' None w of
        (Inl e, w1) \<Rightarrow> (Inl e, w1)
      | (Inr result, w1) \<Rightarrow>
          (let w2 = (if success result
                     then console_log [JStr (stopwatch @ ''  Duration: ''
                                             @ duration_text (duration result) @ ''ms'')]
                            (console_log [JStr (''\<newline>'' @ speech_glyph @ '' Response:''),
                                          output' result] w1)
                     else console_log [JStr (''\<newline>'' @ cross_mark @ '' Error:''),
                                       opt_str (error result)] w1);
               w3 = console_log [JStr (''\<newline>'' @ repeat heavy_bar 70 @ ''\<newline>'')] w2
           in demo_loop agent sleep rest (sleep 1000 w3)))"

definition runDemoMode ::
  "'e executor \<Rightarrow> (int \<Rightarrow> 'e world \<Rightarrow> 'e world) \<Rightarrow> 'e world \<Rightarrow> (thrown + unit) \<times> 'e world" where
  "runDemoMode agent sleep w =
     (let w1 = console_log [JStr (target_glyph @ '' Running Demo Mode...\<newline>'')] w;
          w2 = console_log [JStr (repeat heavy_bar 70)] w1
      in case demo_loop agent sleep demoQueries w2 of
           (Inl e, w3) \<Rightarrow> (Inl e, w3)
         | (Inr u, w3) \<Rightarrow>
             (Inr (), console_log [JStr (''\<newline>'' @ check_mark @ '' Demo completed!\<newline>'')] w3))"

definition batchQueries :: "string list" where
  "batchQueries =
     [''What tools do you have available?'',
      ''Calculate the sum of 100, 200, and 300'',
      ''Get the current datetime'']"

text \<open>The body of \<open>results.forEach((result, idx) => ...)\<close>.\<close>

definition summary_entry :: "'e world \<Rightarrow> nat \<times> agent_result \<Rightarrow> 'e world" where
  "summary_entry w p =
     (let w1 = console_log [JStr (''\<newline>'' @ show_nat (fst p + 1) @ ''. ''
                                  @ (if success (snd p) then check_mark @ '' Success''
                                     else cross_mark @ '' Failed''))] w
      in if success (snd p)
         then console_log [JStr (''   Duration: '' @ duration_text (duration (snd p)) @ ''ms'')] w1
         else w1)"

definition runBatchMode :: "'e executor \<Rightarrow> 'e world \<Rightarrow> (thrown + unit) \<times> 'e world" where
  "runBatchMode agent w =
     (let w1 = console_log [JStr (package_glyph @ '' Running Batch Mode...\<newline>'')] w
      in case batchProcess agent batchQueries w1 of
           (Inl e, w2) \<Rightarrow> (Inl e, w2)
         | (Inr results, w2) \<Rightarrow>
             (let w3 = console_log [JStr (''\<newline>'' @ chart_glyph @ '' Batch Results Summary:'')] w2;
                  w4 = console_log [JStr (repeat heavy_bar 70)] w3;
                  w5 = foldl summary_entry w4 (enumerate 0 results)
              in (Inr (), console_log [JStr ''\<newline>''] w5)))"

text \<open>
  \<open>String.prototype.trim\<close>. Among the code units below 256 the white space and line
  terminators of the language standard are tab, line feed, vertical tab, form feed,
  carriage return, space and no-break space.
\<close>

definition isWhiteSpace :: "char \<Rightarrow> bool" where
  "isWhiteSpace c = ((of_char c :: nat) \<in> {9, 10, 11, 12, 13, 32, 160})"

definition trim :: "string \<Rightarrow> string" where
  "trim s = rev (dropWhile isWhiteSpace (rev (dropWhile isWhiteSpace s)))"

definition help_text :: "'e world \<Rightarrow> 'e world" where
  "help_text w =
     console_log [JStr ''  5. DateTime - Get current time and date info\<newline>'']
       (console_log [JStr ''  4. Conversation Memory - Remember chat history'']
         (console_log [JStr ''  3. Data Analysis - Calculate statistics'']
           (console_log [JStr ''  2. Database Queries - Query structured data'']
             (console_log [JStr ''  1. Document Search - Find information in documents'']
               (console_log [JStr (''\<newline>'' @ tools_glyph @ ''  Available Tools:'')] w)))))"

text \<open>
  \<open>askQuestion\<close>: \<open>rl.question\<close> writes the prompt and waits for a line. Each line typed
  is handled by the callback, which asks again unless it exits; when no line is left the
  question stays unanswered.
\<close>

fun askQuestion :: "'e executor \<Rightarrow> string list \<Rightarrow> 'e world \<Rightarrow> (thrown + unit) \<times> 'e world" where
  "askQuestion agent [] w = (Inr (), rl_question ''You: '' w)"
| "askQuestion agent (input # rest) w =
     (let w1 = rl_question ''You: '' w;
          query' = trim input
      in if query' = [] then askQuestion agent rest w1
         else if toLowerCase query' = ''exit'' \<or> toLowerCase query' = ''quit''
         then (Inr (), process_exit 0
                         (console_log [JStr (''\<newline>'' @ wave_glyph
                                             @ '' Goodbye! Thanks for using the agent.\<newline>'')] w1))
         else if toLowerCase query' = ''help'' then askQuestion agent rest (help_text w1)
         else (case runAgent agent query' None w1 of
                 (Inl e, w2) \<Rightarrow> (Inl e, w2)
               | (Inr result, w2) \<Rightarrow>
                   askQuestion agent rest
                     (console_log [JStr (''\<newline>'' @ repeat heavy_bar 70 @ ''\<newline>'')]
                       (console_log [JStr ''\<newline>Agent:'', output' result] w2))))"

definition interactive_header :: "'e world \<Rightarrow> 'e world" where
  "interactive_header w =
     console_log [JStr (''\<newline>'' @ repeat heavy_bar 70 @ ''\<newline>'')]
       (console_log [JStr (''  - Type '' @ [CHR 0x22] @ ''help'' @ [CHR 0x22] @ '' to see available tools'')]
         (console_log [JStr (''  - Type '' @ [CHR 0x22] @ ''exit'' @ [CHR 0x22] @ '' or ''
                             @ [CHR 0x22] @ ''quit'' @ [CHR 0x22] @ '' to stop'')]
           (console_log [JStr ''  - Type your question and press Enter'']
             (console_log [JStr ''\<newline>Commands:'']
               (console_log [JStr (repeat heavy_bar 70)]
                 (console_log [JStr (speech_glyph @ '' Interactive Mode - Chat with your AI Agent!'')] w))))))"

definition runInteractiveMode ::
  "'e executor \<Rightarrow> string list \<Rightarrow> 'e world \<Rightarrow> (thrown + unit) \<times> 'e world" where
  "runInteractiveMode agent lines w = askQuestion agent lines (interactive_header w)"

definition requiredEnvVars :: "string list" where
  "requiredEnvVars = [''OPENAI_API_KEY'', ''SUPABASE_URL'', ''SUPABASE_KEY'', ''LANGSMITH_API_KEY'']"

text \<open>The block of \<open>main\<close> that reports the missing variables and exits.\<close>

definition report_missing :: "string list \<Rightarrow> 'e world \<Rightarrow> 'e world" where
  "report_missing missingVars w =
     (let w1 = console_error [JStr (''\<newline>'' @ cross_mark @ '' Missing required environment variables:'')] w;
          w2 = foldl (\<lambda>w' varName. console_error [JStr (''   - '' @ varName)] w') w1 missingVars;
          w3 = console_error [JStr ''\<newline>Please check your .env file and add the missing keys.''] w2;
          w4 = console_error [JStr ''See README.md for instructions on getting API keys.\<newline>''] w3
      in process_exit 1 w4)"

text \<open>The \<open>catch\<close> block of \<open>main\<close>.\<close>

definition fatal_error :: "thrown \<Rightarrow> 'e world \<Rightarrow> 'e world" where
  "fatal_error e w =
     process_exit 1
       (console_error [JStr ''\<newline>Please check your configuration and try again.\<newline>'']
         (console_error [JStr (''\<newline>'' @ cross_mark @ '' Fatal Error:''), e] w))"

definition main_config :: AgentConfig where
  "main_config =
     \<lparr>temperature = Some (7 / 10), maxTokens = None, modelName = Some ''gpt-4'',
      verbose = Some True, maxIterations = Some 5\<rparr>"

definition main ::
  "host \<Rightarrow> environment \<Rightarrow> 'e library \<Rightarrow> (int \<Rightarrow> 'e world \<Rightarrow> 'e world) \<Rightarrow> string list
     \<Rightarrow> 'e world \<Rightarrow> 'e world" where
  "main h env build sleep lines w =
     (let w1 = console_log [JStr (''\<newline>'' @ rocket @ '' LangChain Production Agent Starting...'')] w;
          w2 = console_log [JStr (repeat heavy_bar 70)] w1;
          missingVars = filter (env_missing env) requiredEnvVars
      in if length missingVars > 0 then report_missing missingVars w2
         else
           (let w3 = console_log [JStr (check_mark @ '' Environment variables loaded'')] w2;
                w4 = console_log [JStr (check_mark @ '' LangSmith tracing enabled'')] w3;
                w5 = console_log [JStr (check_mark @ '' Project: ''
                                        @ template h (opt_str (env ''LANGSMITH_PROJECT'')))] w4;
                w6 = console_log [JStr (repeat heavy_bar 70)] w5;
                w7 = console_log [JStr (''\<newline>'' @ robot @ '' Initializing AI Agent...'')] w6
            in case createProductionAgent h env build main_config w7 of
                 (Inl e, w8) \<Rightarrow> fatal_error e w8
               | (Inr agent, w8) \<Rightarrow>
                   (let w9 = console_log [JStr (check_mark @ '' Agent initialized successfully!\<newline>'')] w8;
                        mode = (if truthy (opt_str (env ''AGENT_MODE''))
                                then the (env ''AGENT_MODE'') else ''interactive'')
                    in case (if mode = ''demo'' then runDemoMode agent sleep w9
                             else if mode = ''batch'' then runBatchMode agent w9
                             else runInteractiveMode agent lines w9) of
                         (Inl e, w10) \<Rightarrow> fatal_error e w10
                       | (Inr u, w10) \<Rightarrow> w10)))"

section \<open>Concrete collaborators used to exercise the model\<close>

definition world0 :: "unit world" where
  "world0 = \<lparr>clock = 1000, console = [], exited = None, estate = ()\<rparr>"

text \<open>An executor whose every turn fails, one that answers with its input after seven
  milliseconds, and one that fails on the query \<open>q2\<close> only.\<close>

definition failing_executor :: "unit executor" where
  "failing_executor args w = (Inl (JError ''model unavailable''), w)"

definition echo_executor :: "unit executor" where
  "echo_executor args w =
     (Inr [''output'' \<mapsto> get_prop args ''input''], w\<lparr>clock := clock w + 7\<rparr>)"

definition flaky_executor :: "unit executor" where
  "flaky_executor args w =
     (if get_prop args ''input'' = JStr ''q2'' then (Inl (JStr ''iteration limit''), w)
      else (Inr [''output'' \<mapsto> get_prop args ''input''], w\<lparr>clock := clock w + 7\<rparr>))"

text \<open>A configuration without the model credential (and with an empty tracing
  credential), a library that builds the echoing executor, and a host with trivial
  printers, one hour east of UTC.\<close>

definition env_no_openai :: environment where
  "env_no_openai = [''SUPABASE_URL'' \<mapsto> ''https://db.example'', ''SUPABASE_KEY'' \<mapsto> ''k'',
                    ''LANGSMITH_API_KEY'' \<mapsto> '''']"

definition unit_library :: "unit library" where
  "unit_library setup w = (Inr echo_executor, w)"

definition host0 :: host where
  "host0 = \<lparr>Number_toString = (\<lambda>q. show_int \<lfloor>q\<rfloor>), Object_toString = (\<lambda>v. ''[object Object]''),
            JSON_stringify = (\<lambda>v. ''[]''), Date_format_iso = show_int,
            Date_toLocaleString = show_int, Date_toLocaleDateString = show_int,
            Date_toLocaleTimeString = show_int, LocalTZA = 3600000\<rparr>"

text \<open>An argument object with no field set, a store that answers every request with one
  row, a store that answers with an error object, an embedding service, and the
  environments of the two tool modules built from them.\<close>

definition no_args :: tool_args where
  "no_args = \<lparr>query = None, limit = None, operation = None, values' = None, action = None,
              days = None, format = None, conversationId = None, message = None,
              table = None, filters = None\<rparr>"

definition one_row_store :: store_client where
  "one_row_store request =
     Inr \<lparr>data = JArray [JObject [(''content'', JStr ''Refund policy''), (''similarity'', JNum (9 / 10))]],
          store_error = JNull\<rparr>"

definition failing_store :: store_client where
  "failing_store request =
     Inr \<lparr>data = JNull, store_error = JObject [(''message'', JStr ''permission denied'')]\<rparr>"

definition zero_embedder :: embedder where
  "zero_embedder q = Inr (JArray [JNum 0])"

definition class_env0 :: class_env where
  "class_env0 = \<lparr>supabase' = one_row_store, embeddings' = zero_embedder, rt' = host0,
                 now' = 1793615400000\<rparr>"

definition tool_env0 :: tool_env where
  "tool_env0 = \<lparr>supabase = Some one_row_store, embeddings = Some zero_embedder, rt = host0,
                now = 1793615400000\<rparr>"

definition tool_env_store_error :: tool_env where
  "tool_env_store_error = \<lparr>supabase = Some failing_store, embeddings = Some zero_embedder,
                            rt = host0, now = 1793615400000\<rparr>"

section \<open>Properties of the execution wrapper\<close>

lemma clock_console_log [simp]: "clock (console_log a w) = clock w"
  by (simp add: console_log_def)

lemma clock_processing_banner [simp]: "clock (processing_banner i w) = clock w"
  by (simp add: processing_banner_def)

text \<open>\<open>runAgent\<close> by the outcome of the one call it makes to the executor.\<close>

lemma runAgent_cases:
  "runAgent executor input md w =
     (case executor (invoke_args input md) (processing_banner input w) of
        (Inr result, w2) \<Rightarrow>
          (Inr \<lparr>success = True, output' = get_prop result ''output'', error = None,
                duration = Some (clock w2 - clock w), metadata = Some result\<rparr>,
           console_log [JStr (repeat heavy_bar 60)]
             (console_log [JStr (''\<newline>'' @ check_mark @ '' Response generated in''),
                           JNum (of_int (clock w2 - clock w)), JStr ''ms''] w2))
      | (Inl e, w2) \<Rightarrow>
          (Inr \<lparr>success = False, output' = JStr fallback_output, error = Some (error_message e),
                duration = None, metadata = None\<rparr>,
           console_error [JStr (''\<newline>'' @ cross_mark @ '' Agent Error:''), e] w2))"
  by (simp add: runAgent_def Let_def Date_now_def split: prod.splits sum.splits)

lemma runAgent_Inr: "\<exists>r w'. runAgent executor input md w = (Inr r, w')"
  by (simp add: runAgent_cases split: prod.splits sum.splits)

text \<open>
  C1. Whatever the executor and the input, \<open>runAgent\<close> resolves with a result object whose
  \<open>success\<close> field tells whether the executor's invocation resolved; when the invocation
  throws, \<open>success\<close> is false and \<open>output\<close> is the fixed fallback string. The outcome is
  never a rejection, so no exception reaches the caller.
\<close>

theorem runAgent_never_rejects:
  "\<exists>r w'. runAgent executor input md w = (Inr r, w') \<and>
     success r = (\<not> isl (fst (executor (invoke_args input md) (processing_banner input w)))) \<and>
     (\<forall>e. fst (executor (invoke_args input md) (processing_banner input w)) = Inl e \<longrightarrow>
        success r = False \<and> output' r = JStr fallback_output)"
  by (auto simp: runAgent_cases split: prod.splits sum.splits)

theorem runAgent_never_rejects_witness:
  "fst (failing_executor (invoke_args ''hi'' None) (processing_banner ''hi'' world0))
     = Inl (JError ''model unavailable'') \<and>
   (\<exists>r w'. runAgent failing_executor ''hi'' None world0 = (Inr r, w') \<and>
      success r = False \<and> output' r = JStr fallback_output)"
  using runAgent_never_rejects [of failing_executor "''hi''" None world0]
  by (auto simp: failing_executor_def)

text \<open>
  C7, as the claim states it, fails: the object returned from the \<open>catch\<close> block has no
  \<open>duration\<close> field. With an executor that throws, the field is absent.
\<close>

theorem runAgent_failure_has_no_duration:
  "map_sum id duration (fst (runAgent failing_executor ''hi'' None world0)) = Inr None"
  by (simp add: runAgent_cases failing_executor_def)

text \<open>
  C7, amended. When the invocation resolves, the result has \<open>success\<close> true, \<open>output\<close> the
  \<open>output\<close> property of what the executor returned, no \<open>error\<close>, and \<open>duration\<close> the
  difference of the two clock readings, an integer that is at least 0 whenever the clock
  did not go back during the invocation. When the invocation throws, the result has
  \<open>success\<close> false, the fallback \<open>output\<close>, \<open>error\<close> the message of the thrown value, and
  no \<open>duration\<close>.
\<close>

theorem runAgent_result_fields:
  assumes "executor (invoke_args input md) (processing_banner input w) = (res, w2)"
  shows "\<exists>r w'. runAgent executor input md w = (Inr r, w') \<and>
     (case res of
        Inr result \<Rightarrow>
          success r \<and> output' r = get_prop result ''output'' \<and> error r = None \<and>
          duration r = Some (clock w2 - clock w) \<and>
          (clock w \<le> clock w2 \<longrightarrow> (\<exists>d\<ge>0. duration r = Some d))
      | Inl e \<Rightarrow>
          \<not> success r \<and> output' r = JStr fallback_output \<and>
          error r = Some (error_message e) \<and> duration r = None)"
  using assms by (auto simp: runAgent_cases split: sum.splits)

theorem runAgent_result_fields_witness:
  "echo_executor (invoke_args ''hi'' None) (processing_banner ''hi'' world0)
     = (Inr [''output'' \<mapsto> JStr ''hi''], (processing_banner ''hi'' world0)\<lparr>clock := 1007\<rparr>) \<and>
   clock world0 \<le> clock ((processing_banner ''hi'' world0)\<lparr>clock := 1007\<rparr>) \<and>
   (\<exists>r w'. runAgent echo_executor ''hi'' None world0 = (Inr r, w') \<and>
      success r \<and> output' r = JStr ''hi'' \<and> duration r = Some 7 \<and> (\<exists>d\<ge>0. duration r = Some d))"
proof -
  have e: "echo_executor (invoke_args ''hi'' None) (processing_banner ''hi'' world0)
     = (Inr [''output'' \<mapsto> JStr ''hi''], (processing_banner ''hi'' world0)\<lparr>clock := 1007\<rparr>)"
    by (simp add: echo_executor_def invoke_args_def get_prop_def world0_def)
  have c: "clock world0 \<le> clock ((processing_banner ''hi'' world0)\<lparr>clock := 1007\<rparr>)"
    by (simp add: world0_def)
  from runAgent_result_fields [of echo_executor "''hi''" None world0, OF e] c e show ?thesis
    by (auto simp: get_prop_def world0_def)
qed

section \<open>Properties of the batch runner\<close>

text \<open>The loop never rejects and pushes one result per query onto what it was given.\<close>

lemma batch_loop_acc:
  "\<exists>rs w'. batch_loop ex n qs i acc w = (Inr (acc @ rs), w') \<and> length rs = length qs"
proof (induction qs arbitrary: i acc w)
  case Nil
  then show ?case by simp
next
  case (Cons q qs)
  obtain r w2 where r: "runAgent ex q None (console_log [progress_line i n] w) = (Inr r, w2)"
    using runAgent_Inr by blast
  from Cons.IH [of "i + 1" "acc @ [r]" w2] obtain rs w' where
    "batch_loop ex n qs (i + 1) (acc @ [r]) w2 = (Inr ((acc @ [r]) @ rs), w')"
    "length rs = length qs"
    by blast
  then show ?case using r by (auto simp: Let_def intro!: exI [of _ "r # rs"])
qed

text \<open>Running the loop over \<open>xs @ ys\<close> is running it over \<open>xs\<close> and then over \<open>ys\<close>.\<close>

lemma batch_loop_append:
  "batch_loop ex n (xs @ ys) i acc w =
     (case batch_loop ex n xs i acc w of
        (Inl e, w') \<Rightarrow> (Inl e, w')
      | (Inr rs, w') \<Rightarrow> batch_loop ex n ys (i + length xs) rs w')"
proof (induction xs arbitrary: i acc w)
  case Nil
  then show ?case by simp
next
  case (Cons x xs)
  show ?case
    by (simp add: Let_def Cons.IH split: prod.splits sum.splits)
qed

lemma batch_loop_nth:
  assumes "i < length qs"
    and "batch_loop ex n qs 0 [] w = (Inr rs, w')"
  shows "fst (runAgent ex (qs ! i) None
                (console_log [progress_line i n] (snd (batch_loop ex n (take i qs) 0 [] w))))
         = Inr (rs ! i)"
proof -
  have split: "qs = take i qs @ (qs ! i) # drop (Suc i) qs"
    using assms(1) by (simp add: id_take_nth_drop)
  obtain r1 w1 where p: "batch_loop ex n (take i qs) 0 [] w = (Inr r1, w1)" "length r1 = i"
    using batch_loop_acc [of ex n "take i qs" 0 "[]" w] assms(1) by auto
  obtain r w2 where r: "runAgent ex (qs ! i) None (console_log [progress_line i n] w1) = (Inr r, w2)"
    using runAgent_Inr by blast
  obtain r3 w3 where
    q: "batch_loop ex n (drop (Suc i) qs) (Suc i) (r1 @ [r]) w2 = (Inr ((r1 @ [r]) @ r3), w3)"
    using batch_loop_acc [of ex n "drop (Suc i) qs" "Suc i" "r1 @ [r]" w2] by auto
  have "batch_loop ex n qs 0 [] w = batch_loop ex n (take i qs @ (qs ! i) # drop (Suc i) qs) 0 [] w"
    using split by simp
  also have "\<dots> = (Inr ((r1 @ [r]) @ r3), w3)"
    using p r q assms(1) by (simp add: batch_loop_append Let_def)
  finally have "rs = (r1 @ [r]) @ r3"
    using assms(2) by simp
  then have "rs ! i = r"
    using p(2) by (simp add: nth_append)
  then show ?thesis using p r by simp
qed

lemma progress_world_Suc:
  assumes "i < length queries"
  shows "progress_world executor queries (Suc i) w =
     console_log [progress_line (Suc i) (length queries)]
       (snd (runAgent executor (queries ! i) None (progress_world executor queries i w)))"
proof -
  let ?n = "length queries"
  let ?w0 = "console_log [batch_banner ?n] w"
  obtain r1 w1 where p: "batch_loop executor ?n (take i queries) 0 [] ?w0 = (Inr r1, w1)"
    using batch_loop_acc [of executor ?n "take i queries" 0 "[]" ?w0] by auto
  obtain r w2 where
    r: "runAgent executor (queries ! i) None (console_log [progress_line i ?n] w1) = (Inr r, w2)"
    using runAgent_Inr by blast
  have "take (Suc i) queries = take i queries @ [queries ! i]"
    using assms by (simp add: take_Suc_conv_app_nth)
  then have "batch_loop executor ?n (take (Suc i) queries) 0 [] ?w0 = (Inr (r1 @ [r]), w2)"
    using p r assms by (simp add: batch_loop_append Let_def min_absorb2)
  then show ?thesis using p r by (simp add: progress_world_def)
qed

lemma flaky_batch:
  "map_sum id (map success) (fst (batchProcess flaky_executor [''q1'', ''q2'', ''q3''] world0))
     = Inr [True, False, True]"
  by (simp add: batchProcess_def runAgent_cases flaky_executor_def invoke_args_def
      get_prop_def Let_def)

text \<open>
  C2. Whatever the executor and the queries, \<open>batchProcess\<close> resolves with as many results
  as there are queries; the result at position \<open>i\<close> is what \<open>runAgent\<close> returns for the
  query at position \<open>i\<close>, called in the world the loop has reached after the queries
  before it; and the call for the next query starts in the world the call for this one
  left behind, so the calls are made one after the other in input order. A result with
  \<open>success\<close> false is pushed like any other and the loop goes on.
\<close>

theorem batchProcess_results:
  "\<exists>rs w'. batchProcess executor queries w = (Inr rs, w') \<and> length rs = length queries \<and>
     (\<forall>i<length queries.
        fst (runAgent executor (queries ! i) None (progress_world executor queries i w))
          = Inr (rs ! i)) \<and>
     (\<forall>i. Suc i < length queries \<longrightarrow>
        progress_world executor queries (Suc i) w =
          console_log [progress_line (Suc i) (length queries)]
            (snd (runAgent executor (queries ! i) None (progress_world executor queries i w))))"
proof -
  let ?w1 = "console_log [batch_banner (length queries)] w"
  obtain rs w2 where l: "batch_loop executor (length queries) queries 0 [] ?w1 = (Inr rs, w2)"
      "length rs = length queries"
    using batch_loop_acc [of executor "length queries" queries 0 "[]" ?w1] by auto
  have "\<forall>i<length queries.
        fst (runAgent executor (queries ! i) None (progress_world executor queries i w))
          = Inr (rs ! i)"
    using batch_loop_nth [OF _ l(1)] by (simp add: progress_world_def)
  then show ?thesis
    using l by (simp add: batchProcess_def Let_def progress_world_Suc)
qed

theorem batchProcess_results_witness:
  "(1::nat) < length [''q1'', ''q2'', ''q3''] \<and>
   (\<exists>rs w'. batchProcess flaky_executor [''q1'', ''q2'', ''q3''] world0 = (Inr rs, w') \<and>
      length rs = 3 \<and> map success rs = [True, False, True] \<and>
      fst (runAgent flaky_executor ''q2'' None
             (progress_world flaky_executor [''q1'', ''q2'', ''q3''] 1 world0)) = Inr (rs ! 1) \<and>
      progress_world flaky_executor [''q1'', ''q2'', ''q3''] 2 world0 =
        console_log [progress_line 2 3]
          (snd (runAgent flaky_executor ''q2'' None
                  (progress_world flaky_executor [''q1'', ''q2'', ''q3''] 1 world0))))"
proof -
  obtain rs w' where
    b: "batchProcess flaky_executor [''q1'', ''q2'', ''q3''] world0 = (Inr rs, w')"
    and n: "length rs = length [''q1'', ''q2'', ''q3'']"
    and r: "\<forall>i<length [''q1'', ''q2'', ''q3''].
        fst (runAgent flaky_executor ([''q1'', ''q2'', ''q3''] ! i) None
               (progress_world flaky_executor [''q1'', ''q2'', ''q3''] i world0)) = Inr (rs ! i)"
    and s: "\<forall>i. Suc i < length [''q1'', ''q2'', ''q3''] \<longrightarrow>
        progress_world flaky_executor [''q1'', ''q2'', ''q3''] (Suc i) world0 =
          console_log [progress_line (Suc i) (length [''q1'', ''q2'', ''q3''])]
            (snd (runAgent flaky_executor ([''q1'', ''q2'', ''q3''] ! i) None
                    (progress_world flaky_executor [''q1'', ''q2'', ''q3''] i world0)))"
    using batchProcess_results [of flaky_executor "[''q1'', ''q2'', ''q3'']" world0] by blast
  have m: "map success rs = [True, False, True]"
    using flaky_batch b by simp
  have r1: "fst (runAgent flaky_executor ''q2'' None
             (progress_world flaky_executor [''q1'', ''q2'', ''q3''] 1 world0)) = Inr (rs ! 1)"
    using r [rule_format, of 1] by simp
  have s1: "progress_world flaky_executor [''q1'', ''q2'', ''q3''] 2 world0 =
        console_log [progress_line 2 3]
          (snd (runAgent flaky_executor ''q2'' None
                  (progress_world flaky_executor [''q1'', ''q2'', ''q3''] 1 world0)))"
    using s [rule_format, of 1] by (simp add: numeral_2_eq_2 numeral_3_eq_3)
  show ?thesis using b n m r1 s1 by simp
qed

section \<open>Properties of the command-line harness\<close>

lemma foldl_console_error:
  "foldl (\<lambda>w' v. console_error [f v] w') w vs = w\<lparr>console := console w @ map (\<lambda>v. ConsoleError [f v]) vs\<rparr>"
  by (induction vs arbitrary: w) (simp_all add: console_error_def)

text \<open>The whole run of \<open>main\<close> when the list of missing variables is not empty.\<close>

lemma main_missing:
  assumes "filter (env_missing env) requiredEnvVars \<noteq> []"
  shows "main h env build sleep lines w =
     w\<lparr>console := console w @
          [ConsoleLog [JStr (''\<newline>'' @ rocket @ '' LangChain Production Agent Starting...'')],
           ConsoleLog [JStr (repeat heavy_bar 70)],
           ConsoleError [JStr (''\<newline>'' @ cross_mark @ '' Missing required environment variables:'')]]
          @ map (\<lambda>v. ConsoleError [JStr (''   - '' @ v)]) (filter (env_missing env) requiredEnvVars)
          @ [ConsoleError [JStr ''\<newline>Please check your .env file and add the missing keys.''],
             ConsoleError [JStr ''See README.md for instructions on getting API keys.\<newline>'']],
       exited := Some 1\<rparr>" (is "_ = ?thesis_rhs")
proof -
  have len: "0 < length (filter (env_missing env) requiredEnvVars)"
    using assms by simp
  have "main h env build sleep lines w =
          report_missing (filter (env_missing env) requiredEnvVars)
            (console_log [JStr (repeat heavy_bar 70)]
               (console_log [JStr (''\<newline>'' @ rocket @ '' LangChain Production Agent Starting...'')] w))"
    using len unfolding main_def Let_def by (simp only: if_True)
  also have "\<dots> = ?thesis_rhs"
    unfolding report_missing_def Let_def foldl_console_error
    by (simp add: console_log_def console_error_def process_exit_def)
  finally show ?thesis .
qed

text \<open>
  C8. When one of the four required variables is unset or empty, \<open>main\<close> ends with exit
  status 1 and has written an error line naming that variable. The final world is the
  initial one with the two banner lines, the report of the missing variables and the
  status: the library that would build the executor, the timer and standard input do
  not occur in it, so no executor was built and no collaborator was called. Called on
  its own without the model credential, \<open>createProductionAgent\<close> throws before it
  builds anything.
\<close>

theorem main_missing_configuration:
  assumes "v \<in> set requiredEnvVars" and "env_missing env v"
  shows "exited (main h env build sleep lines w) = Some 1 \<and>
     ConsoleError [JStr (''   - '' @ v)] \<in> set (console (main h env build sleep lines w)) \<and>
     main h env build sleep lines w =
       w\<lparr>console := console w @
          [ConsoleLog [JStr (''\<newline>'' @ rocket @ '' LangChain Production Agent Starting...'')],
           ConsoleLog [JStr (repeat heavy_bar 70)],
           ConsoleError [JStr (''\<newline>'' @ cross_mark @ '' Missing required environment variables:'')]]
          @ map (\<lambda>v. ConsoleError [JStr (''   - '' @ v)]) (filter (env_missing env) requiredEnvVars)
          @ [ConsoleError [JStr ''\<newline>Please check your .env file and add the missing keys.''],
             ConsoleError [JStr ''See README.md for instructions on getting API keys.\<newline>'']],
       exited := Some 1\<rparr> \<and>
     (v = ''OPENAI_API_KEY'' \<longrightarrow>
        createProductionAgent h env build config w
          = (Inl (JError ''OPENAI_API_KEY environment variable is required''), w))"
proof -
  have ne: "filter (env_missing env) requiredEnvVars \<noteq> []"
    using assms by (auto simp: filter_empty_conv)
  have mem: "v \<in> set (filter (env_missing env) requiredEnvVars)"
    using assms by simp
  show ?thesis
    using assms(2) mem by (auto simp: main_missing [OF ne] createProductionAgent_def Let_def)
qed

theorem main_missing_configuration_witness:
  "''OPENAI_API_KEY'' \<in> set requiredEnvVars \<and> env_missing env_no_openai ''OPENAI_API_KEY'' \<and>
   exited (main host0 env_no_openai unit_library (\<lambda>ms w. w) [] world0) = Some 1 \<and>
   ConsoleError [JStr ''   - OPENAI_API_KEY'']
     \<in> set (console (main host0 env_no_openai unit_library (\<lambda>ms w. w) [] world0)) \<and>
   createProductionAgent host0 env_no_openai unit_library main_config world0
     = (Inl (JError ''OPENAI_API_KEY environment variable is required''), world0)"
proof -
  have a: "''OPENAI_API_KEY'' \<in> set requiredEnvVars"
    by (simp add: requiredEnvVars_def)
  have b: "env_missing env_no_openai ''OPENAI_API_KEY''"
    by (simp add: env_missing_def env_no_openai_def)
  from main_missing_configuration [OF a b, of host0 unit_library "\<lambda>ms w. w" "[]" world0 main_config] a b
  show ?thesis by simp
qed

lemma trim_blank: "\<forall>c\<in>set s. isWhiteSpace c \<Longrightarrow> trim s = []"
proof -
  assume "\<forall>c\<in>set s. isWhiteSpace c"
  then have d: "dropWhile isWhiteSpace s = []"
    by simp
  show "trim s = []"
    unfolding trim_def d by simp
qed

lemma trim_empty_iff: "trim s = [] \<longleftrightarrow> (\<forall>c\<in>set s. isWhiteSpace c)"
proof
  assume "trim s = []"
  then have all: "\<forall>c\<in>set (dropWhile isWhiteSpace s). isWhiteSpace c"
    by (simp add: trim_def)
  have "dropWhile isWhiteSpace s = []"
  proof (rule ccontr)
    assume ne: "dropWhile isWhiteSpace s \<noteq> []"
    then have "\<not> isWhiteSpace (hd (dropWhile isWhiteSpace s))"
      by (rule hd_dropWhile)
    moreover have "hd (dropWhile isWhiteSpace s) \<in> set (dropWhile isWhiteSpace s)"
      using ne by simp
    ultimately show False using all by blast
  qed
  then show "\<forall>c\<in>set s. isWhiteSpace c"
    by simp
next
  assume "\<forall>c\<in>set s. isWhiteSpace c"
  then show "trim s = []" by (rule trim_blank)
qed

text \<open>
  C10. In interactive mode a line that is empty or holds white space only is skipped:
  after the prompt, the loop goes on with the remaining lines in the same world, so
  for that line \<open>runAgent\<close> is not called and nothing is printed.
\<close>

theorem askQuestion_skips_blank_line:
  assumes "\<forall>c\<in>set input. isWhiteSpace c"
  shows "askQuestion agent (input # rest) w = askQuestion agent rest (rl_question ''You: '' w)"
  using assms by (simp add: trim_blank Let_def)

theorem askQuestion_skips_blank_line_witness:
  "isWhiteSpace (CHR '' '') \<and> isWhiteSpace (CHR 0x09) \<and>
   askQuestion echo_executor [[CHR '' '', CHR 0x09, CHR '' ''], ''exit''] world0
     = askQuestion echo_executor [''exit''] (rl_question ''You: '' world0) \<and>
   console (snd (askQuestion echo_executor [[CHR '' '', CHR 0x09, CHR '' ''], ''exit''] world0))
     = [Question ''You: '', Question ''You: '',
        ConsoleLog [JStr (''\<newline>'' @ wave_glyph @ '' Goodbye! Thanks for using the agent.\<newline>'')]]"
proof -
  have ws: "isWhiteSpace (CHR '' '')" "isWhiteSpace (CHR 0x09)"
    by (simp_all add: isWhiteSpace_def)
  then have a: "\<forall>c\<in>set [CHR '' '', CHR 0x09, CHR '' '']. isWhiteSpace c"
    by simp
  have skip: "askQuestion echo_executor [[CHR '' '', CHR 0x09, CHR '' ''], ''exit''] world0
     = askQuestion echo_executor [''exit''] (rl_question ''You: '' world0)"
    using askQuestion_skips_blank_line [OF a, of echo_executor "[''exit'']" world0] .
  have "console (snd (askQuestion echo_executor [''exit''] (rl_question ''You: '' world0)))
     = [Question ''You: '', Question ''You: '',
        ConsoleLog [JStr (''\<newline>'' @ wave_glyph @ '' Goodbye! Thanks for using the agent.\<newline>'')]]"
    by (simp add: Let_def trim_def isWhiteSpace_def toLowerCase_def rl_question_def
        console_log_def process_exit_def world0_def)
  then show ?thesis
    using ws skip by simp
qed

section \<open>Properties of the analysis and database tools\<close>








lemma join_allowedTables:
  "join '', '' allowedTables = ''documents, agent_conversations, document_chunks''"
  by (simp add: allowedTables_def)

lemma catch_to_string_Inr: "\<exists>v. fst (catch_to_string p r) = Inr v"
  by (simp add: catch_to_string_def split: sum.splits)

text \<open>Every request the database tool sends names a table of the allow-list.\<close>

lemma DatabaseQueryTool_requests:
  assumes "req \<in> set (snd (DatabaseQueryTool_class_call env input))"
  shows "\<exists>tb fs lim. req = StoreRequest (Select tb ''*'' fs lim False) \<and> tb \<in> set allowedTables"
proof -
  have r: "req \<in> set (snd (DatabaseQueryTool_try env input))"
    using assms by (simp add: DatabaseQueryTool_class_call_def catch_to_string_def split: sum.splits)
  show ?thesis
  proof (cases "table input")
    case None
    then show ?thesis
      using r by (simp add: DatabaseQueryTool_try_def Let_def allowedTables_def)
  next
    case (Some t)
    then show ?thesis
      using r
      by (auto simp: DatabaseQueryTool_try_def Let_def split: if_splits sum.splits)
  qed
qed

text \<open>
  C5. For a table name outside the allow-list, \<open>database_query\<close> returns the rejection
  string and sends nothing to the store; and whatever the call, no request it sends
  names that table.
\<close>

theorem DatabaseQueryTool_rejects_table:
  assumes "table input = Some t" and "t \<notin> set allowedTables"
  shows "DatabaseQueryTool_class_call env input =
     (Inr (JStr (''Error: Table '' @ [CHR 0x27] @ t @ [CHR 0x27]
                 @ '' is not allowed. Allowed tables: documents, agent_conversations, document_chunks'')),
      []) \<and>
     (\<forall>env' input' req. req \<in> set (snd (DatabaseQueryTool_class_call env' input')) \<longrightarrow>
        (\<exists>tb fs lim. req = StoreRequest (Select tb ''*'' fs lim False) \<and> tb \<noteq> t))"
proof -
  have "JStr t \<notin> set (map JStr allowedTables)"
    using assms(2) by auto
  then have "DatabaseQueryTool_try env input =
     (Inr (JStr (table_not_allowed (rt' env) (JStr t))), [])"
    using assms(1) by (simp add: DatabaseQueryTool_try_def Let_def)
  then have a: "DatabaseQueryTool_class_call env input =
     (Inr (JStr (''Error: Table '' @ [CHR 0x27] @ t @ [CHR 0x27]
                 @ '' is not allowed. Allowed tables: documents, agent_conversations, document_chunks'')),
      [])"
    by (simp add: DatabaseQueryTool_class_call_def catch_to_string_def table_not_allowed_def
        join_allowedTables)
  have b: "\<exists>tb fs lim. req = StoreRequest (Select tb ''*'' fs lim False) \<and> tb \<noteq> t"
    if "req \<in> set (snd (DatabaseQueryTool_class_call env' input'))" for env' input' req
    using DatabaseQueryTool_requests [OF that] assms(2) by auto
  show ?thesis using a b by blast
qed

theorem DatabaseQueryTool_rejects_table_witness:
  "table (no_args\<lparr>table := Some ''users''\<rparr>) = Some ''users'' \<and> ''users'' \<notin> set allowedTables \<and>
   DatabaseQueryTool_class_call class_env0 (no_args\<lparr>table := Some ''users''\<rparr>) =
     (Inr (JStr (''Error: Table '' @ [CHR 0x27] @ ''users'' @ [CHR 0x27]
                 @ '' is not allowed. Allowed tables: documents, agent_conversations, document_chunks'')),
      []) \<and>
   StoreRequest (Select ''documents'' ''*'' [] (Some 10) False)
     \<in> set (snd (DatabaseQueryTool_class_call class_env0 (no_args\<lparr>table := Some ''documents''\<rparr>)))"
proof -
  have a: "table (no_args\<lparr>table := Some ''users''\<rparr>) = Some ''users''"
    by simp
  have b: "''users'' \<notin> set allowedTables"
    by (simp add: allowedTables_def)
  have c: "StoreRequest (Select ''documents'' ''*'' [] (Some 10) False)
     \<in> set (snd (DatabaseQueryTool_class_call class_env0 (no_args\<lparr>table := Some ''documents''\<rparr>)))"
    by (simp add: DatabaseQueryTool_class_call_def DatabaseQueryTool_try_def catch_to_string_def
        Let_def allowedTables_def class_env0_def one_row_store_def no_args_def)
  from DatabaseQueryTool_rejects_table [OF a b, of class_env0, THEN conjunct1] a b c
  show ?thesis by (intro conjI)
qed

section \<open>The tool boundary and the tool set\<close>

text \<open>
  C3. In the module of object literals, \<open>DocumentSearchTool.call\<close> has no \<open>try\<close>: when
  the store answers the similarity search with an error object, \<open>if (error) throw error\<close>
  rejects the call with that object, so a thrown value crosses the tool boundary
  instead of a string.
\<close>

theorem DocumentSearchTool_call_throws:
  "DocumentSearchTool_call tool_env_store_error (Some (no_args\<lparr>query := Some ''refunds'', limit := Some 2\<rparr>))
     = (Inl (JObject [(''message'', JStr ''permission denied'')]),
        [EmbedQuery (JStr ''refunds''),
         StoreRequest (Rpc ''match_documents''
           [(''query_embedding'', JArray [JNum 0]), (''match_threshold'', JNum (78 / 100)),
            (''match_count'', JNum 2)])])"
  by (simp add: DocumentSearchTool_call_def tool_env_store_error_def failing_store_def
      zero_embedder_def no_args_def Let_def)

theorem DocumentSearchTool_call_throws_witness:
  "isl (fst (DocumentSearchTool_call tool_env_store_error
               (Some (no_args\<lparr>query := Some ''refunds'', limit := Some 2\<rparr>))))"
  using DocumentSearchTool_call_throws by simp

text \<open>The same module's \<open>datetime\<close> rejects when the shifted date is out of range.\<close>

lemma DateTimeTool_call_throws:
  "DateTimeTool_call tool_env0 (Some (no_args\<lparr>action := Some ''add_days'', days := Some 1000000000\<rparr>))
     = (Inl (RangeError ''Invalid time value''), [])"
proof -
  have "add_days_date host0 1793615400000 (of_int 1000000000) = None"
    by code_simp
  then show ?thesis
    by (simp add: DateTimeTool_call_def tool_env0_def Date_toISOString_def)
qed

text \<open>In the module of classes every \<open>_call\<close> resolves, whatever the collaborators do.\<close>

lemma class_tools_never_throw:
  "\<exists>v. fst (DocumentSearchTool_class_call env input) = Inr v"
  "\<exists>v. fst (DatabaseQueryTool_class_call env input) = Inr v"
  "\<exists>v. fst (DataAnalysisTool_class_call env input) = Inr v"
  "\<exists>v. fst (ConversationMemoryTool_class_call env input) = Inr v"
  "\<exists>v. fst (DateTimeTool_class_call env input) = Inr v"
  by (simp_all add: DocumentSearchTool_class_call_def DatabaseQueryTool_class_call_def
      DataAnalysisTool_class_call_def ConversationMemoryTool_class_call_def
      DateTimeTool_class_call_def catch_to_string_Inr)

text \<open>Both \<open>data_analysis\<close> handlers answer an empty list with a string, for every operation.\<close>

lemma data_analysis_empty:
  "DataAnalysisTool_call env (Some (input\<lparr>values' := Some []\<rparr>)) = (Inr (JStr ''No values provided.''), [])"
  "DataAnalysisTool_class_call cenv (input\<lparr>values' := Some []\<rparr>)
     = (Inr (JStr ''Error: No values provided for analysis.''), [])"
  by (simp_all add: DataAnalysisTool_call_def DataAnalysisTool_class_call_def
      DataAnalysisTool_try_def catch_to_string_def)

text \<open>
  C6. The list \<open>allTools\<close> that \<open>agent.ts\<close> imports and binds to the executor has four
  members: \<open>database_query\<close> is not among them.
\<close>

theorem allTools_has_four_members:
  "map name allTools = [''document_search'', ''data_analysis'', ''datetime'', ''conversation_memory'']
   \<and> length allTools = 4 \<and> ''database_query'' \<notin> set (map name allTools)"
  by (simp add: allTools_def DocumentSearchTool_def DataAnalysisTool_def DateTimeTool_def
      ConversationMemoryTool_def)

text \<open>When the credential is present, the executor is built over exactly this list.\<close>

lemma createProductionAgent_binds_allTools:
  assumes "\<not> env_missing env ''OPENAI_API_KEY''"
  shows "\<exists>setup. createProductionAgent h env build config w = build setup w \<and>
     tools setup = allTools \<and> handleParsingErrors setup"
  using assms
  by (simp add: createProductionAgent_def Let_def Date_toISOString_def)
    (rule exI, intro conjI, rule refl, simp_all)

text \<open>The list of the class module has the five tools, with distinct names.\<close>

lemma allTools_class_has_five_members:
  "map name allTools_class
     = [''document_search'', ''database_query'', ''data_analysis'', ''conversation_memory'', ''datetime'']
   \<and> length allTools_class = 5 \<and> distinct (map name allTools_class)"
  by (simp add: allTools_class_def DocumentSearchTool_class_def DatabaseQueryTool_class_def
      DataAnalysisTool_class_def ConversationMemoryTool_class_def DateTimeTool_class_def)

section \<open>Properties of the date tool\<close>

lemma div_bounds:
  fixes x n :: int
  assumes "0 < n"
  shows "n * (x div n) \<le> x" and "x < n * (x div n) + n"
proof -
  have "n * (x div n) + x mod n = x"
    by simp
  moreover have "0 \<le> x mod n" "x mod n < n"
    using assms by simp_all
  ultimately show "n * (x div n) \<le> x" and "x < n * (x div n) + n"
    by linarith+
qed

text \<open>Four hundred years hold 146097 days, so the first day of a year stays close to
  the line of that slope.\<close>

lemma DayFromYear_bounds:
  "146097 * (y - 1970) - 506 \<le> 400 * DayFromYear y \<and>
   400 * DayFromYear y \<le> 146097 * (y - 1970) + 589"
proof -
  define a where "a = (y - 1969) div 4"
  define b where "b = (y - 1901) div 100"
  define c where "c = (y - 1601) div 400"
  have a: "4 * a \<le> y - 1969" "y - 1969 - 3 \<le> 4 * a"
    unfolding a_def using div_bounds [of 4 "y - 1969"] by simp_all
  have b: "100 * b \<le> y - 1901" "y - 1901 - 99 \<le> 100 * b"
    unfolding b_def using div_bounds [of 100 "y - 1901"] by simp_all
  have c: "400 * c \<le> y - 1601" "y - 1601 - 399 \<le> 400 * c"
    unfolding c_def using div_bounds [of 400 "y - 1601"] by simp_all
  have d: "DayFromYear y = 365 * (y - 1970) + a - b + c"
    by (simp add: DayFromYear_def a_def b_def c_def)
  have a4: "100 * (y - 1972) \<le> 400 * a" "400 * a \<le> 100 * (y - 1969)"
    using a by simp_all
  have b4: "4 * (y - 2000) \<le> 400 * b" "400 * b \<le> 4 * (y - 1901)"
    using b by simp_all
  have e: "400 * (365 * (y - 1970) + a - b + c) = 146000 * (y - 1970) + 400 * a - 400 * b + 400 * c"
    by (simp add: algebra_simps)
  have "146097 * (y - 1970) - 506 \<le> 400 * (365 * (y - 1970) + a - b + c)"
    unfolding e using a4 b4 c by simp
  moreover have "400 * (365 * (y - 1970) + a - b + c) \<le> 146097 * (y - 1970) + 589"
    unfolding e using a4 b4 c by simp
  ultimately show ?thesis
    unfolding d by simp
qed

text \<open>\<open>YearFromDay\<close> is the year the standard asks for: the largest one whose first day
  is not after the given day.\<close>

lemma YearFromDay_spec:
  "DayFromYear (YearFromDay d) \<le> d \<and> d < DayFromYear (YearFromDay d + 1)"
proof -
  define k where "k = (d * 400) div 146097"
  have k: "146097 * k \<le> 400 * d" "400 * d < 146097 * k + 146097"
    unfolding k_def using div_bounds [of 146097 "d * 400"] by (simp_all add: mult.commute)
  have lo: "DayFromYear (1970 + k - 1) \<le> d"
    using DayFromYear_bounds [of "1970 + k - 1"] k by simp
  have hi: "d < DayFromYear (1970 + k + 2)"
    using DayFromYear_bounds [of "1970 + k + 2"] k by simp
  have "YearFromDay d =
      (if DayFromYear (1970 + k + 1) \<le> d then 1970 + k + 1
       else if DayFromYear (1970 + k) \<le> d then 1970 + k else 1970 + k - 1)"
    by (simp add: YearFromDay_def Let_def k_def)
  then show ?thesis
    using lo hi by (auto simp: add.commute add.left_commute)
qed


lemma DayFromYear_mono: "DayFromYear y < DayFromYear (y + 1)"
proof -
  have a: "(y - 1969) div 4 \<le> (y + 1 - 1969) div 4"
    by (rule zdiv_mono1) simp_all
  have c: "(y - 1601) div 400 \<le> (y + 1 - 1601) div 400"
    by (rule zdiv_mono1) simp_all
  have "100 * ((y + 1 - 1901) div 100) < 100 * ((y - 1901) div 100) + 101"
    using div_bounds [of 100 "y + 1 - 1901"] div_bounds [of 100 "y - 1901"] by simp
  then have b: "(y + 1 - 1901) div 100 \<le> (y - 1901) div 100 + 1"
    by simp
  show ?thesis
    unfolding DayFromYear_def using a b c by simp
qed


lemma DayFromYear_le: "y \<le> z \<Longrightarrow> DayFromYear y \<le> DayFromYear z"
proof (induction z rule: int_ge_induct)
  case base
  show ?case by simp
next
  case (step i)
  then show ?case
    using DayFromYear_mono [of i] by simp
qed

lemma YearFromDay_largest:
  assumes "DayFromYear y \<le> d"
  shows "y \<le> YearFromDay d"
proof (rule ccontr)
  assume "\<not> y \<le> YearFromDay d"
  then have "YearFromDay d + 1 \<le> y"
    by simp
  then have "DayFromYear (YearFromDay d + 1) \<le> DayFromYear y"
    by (rule DayFromYear_le)
  then show False
    using assms YearFromDay_spec [of d] by simp
qed








end
